theory Spec2Isabelle
  imports Main "HOL-Library.Word"
begin

section \<open>The JNI bridge of the speech-recognition engine (TFLiteEngineJNI.cpp)\<close>

text \<open>
  The file exports five JNI functions: \<open>createTFLiteEngine\<close>, \<open>loadModel\<close>, \<open>freeModel\<close>,
  \<open>transcribeBuffer\<close> and \<open>transcribeFile\<close>. Each one turns the \<open>jlong\<close> it is given into a
  \<open>TFLiteEngine *\<close>, borrows its managed arguments through the \<open>JNIEnv\<close>, calls one method of
  the engine and marshals the result back.

  The embedding is a state-passing one. The state (\<open>world\<close>) holds the native heap of
  engine objects, the managed float arrays, the native buffers the JNI runtime has handed
  out and not yet taken back, and the chronological list of the calls the bridge has made.
  A statement of the source is a function from a world to an \<open>outcome\<close>: it returns a
  value and the next world, or the process aborts, or the behaviour is undefined (a stale
  or forged pointer is dereferenced, a buffer is read out of bounds).
\<close>

subsection \<open>Machine types of jni.h\<close>

type_synonym jlong = "64 word"
type_synonym jint = "32 word"
type_synonym jsize = "32 word"
type_synonym jboolean = "8 word"
type_synonym jfloat = "32 word" \<comment> \<open>the bit pattern of an IEEE single; the bridge only copies floats\<close>
type_synonym cchar = "8 word"
type_synonym cint = "32 word" \<comment> \<open>C++ \<open>int\<close> on every Android ABI\<close>
type_synonym jfloatArray = nat \<comment> \<open>a reference to a managed \<open>float[]\<close>\<close>
type_synonym nptr = nat \<comment> \<open>a pointer to a native buffer handed out by the JNI runtime\<close>

definition JNI_COMMIT :: jint where
  "JNI_COMMIT = 1"

definition JNI_ABORT :: jint where
  "JNI_ABORT = 2"

subsection \<open>Outcomes and sequencing\<close>

datatype 'a outcome = Returns 'a | Aborts | Undefined

definition andThen ::
  "('w \<Rightarrow> ('a \<times> 'w) outcome) \<Rightarrow> ('a \<Rightarrow> 'w \<Rightarrow> ('b \<times> 'w) outcome) \<Rightarrow> 'w \<Rightarrow> ('b \<times> 'w) outcome" where
  "andThen m f w = (case m w of Returns (a, w') \<Rightarrow> f a w' | Aborts \<Rightarrow> Aborts | Undefined \<Rightarrow> Undefined)"

definition ret :: "'a \<Rightarrow> 'w \<Rightarrow> ('a \<times> 'w) outcome" where
  "ret a w = Returns (a, w)"

fun returned :: "('a \<times> 'w) outcome \<Rightarrow> 'a option" where
  "returned (Returns (a, w)) = Some a"
| "returned Aborts = None"
| "returned Undefined = None"

fun final :: "('a \<times> 'w) outcome \<Rightarrow> 'w option" where
  "final (Returns (a, w)) = Some w"
| "final Aborts = None"
| "final Undefined = None"

subsection \<open>What the bridge calls\<close>

text \<open>
  The calls the bridge makes, in the order it makes them. \<open>'s\<close> is the type of managed
  strings.
\<close>

datatype 's event =
    EvNew jlong
  | EvDelete jlong
  | EvGetStringUTFChars 's nptr
  | EvReleaseStringUTFChars 's nptr
  | EvGetArrayLength jfloatArray
  | EvGetFloatArrayElements jfloatArray nptr
  | EvReleaseFloatArrayElements jfloatArray nptr jint
  | EvVectorCopy nptr "jfloat list"
  | EvNewStringUTF "cchar list"
  | EvEngineLoadModel jlong "cchar list" bool
  | EvEngineFreeModel jlong
  | EvEngineTranscribeBuffer jlong "jfloat list"
  | EvEngineTranscribeFile jlong "cchar list"

text \<open>
  Everything the bridge calls and does not define: the class \<open>TFLiteEngine\<close> (declared in
  TFLiteEngine.h, which is not among the sources), \<open>operator new\<close>, and the two string
  conversions of the JNI runtime. They are parameters of the model. \<open>'e\<close> is the state of
  one engine object. A method of the engine that does not come back (it throws or crashes;
  an exception that leaves a JNI function ends the process) yields \<open>None\<close>.
  \<open>op_new\<close> is given the objects that are live and yields the address of the new one, or
  \<open>None\<close> when it throws \<open>std::bad_alloc\<close>. \<open>utf_chars\<close> is the modified UTF-8 encoding that
  \<open>GetStringUTFChars\<close> writes (without the terminating NUL), \<open>new_string_utf\<close> the managed
  string that \<open>NewStringUTF\<close> builds from the bytes of a C string.
\<close>

record ('e, 's) externals =
  op_new :: "(jlong \<rightharpoonup> 'e) \<Rightarrow> jlong option"
  engine_ctor :: "'e option"
  engine_loadModel :: "'e \<Rightarrow> cchar list \<Rightarrow> bool \<Rightarrow> (cint \<times> 'e) option"
  engine_freeModel :: "'e \<Rightarrow> 'e option"
  engine_transcribeBuffer :: "'e \<Rightarrow> jfloat list \<Rightarrow> (cchar list \<times> 'e) option"
  engine_transcribeFile :: "'e \<Rightarrow> cchar list \<Rightarrow> (cchar list \<times> 'e) option"
  utf_chars :: "'s \<Rightarrow> cchar list"
  new_string_utf :: "cchar list \<Rightarrow> 's"

record ('e, 's) world =
  engines :: "jlong \<rightharpoonup> 'e" \<comment> \<open>the live \<open>TFLiteEngine\<close> objects, by address\<close>
  jarrays :: "jfloatArray \<rightharpoonup> jfloat list" \<comment> \<open>the managed float arrays\<close>
  cbufs :: "nptr \<rightharpoonup> cchar list" \<comment> \<open>buffers of \<open>GetStringUTFChars\<close> not yet released\<close>
  fbufs :: "nptr \<rightharpoonup> jfloat list" \<comment> \<open>buffers of \<open>GetFloatArrayElements\<close> not yet released\<close>
  next_buf :: nptr
  trace :: "'s event list"

definition logged :: "'s event \<Rightarrow> ('e, 's) world \<Rightarrow> ('e, 's) world" where
  "logged ev w = w\<lparr>trace := trace w @ [ev]\<rparr>"

subsection \<open>C strings\<close>

text \<open>
  Reading a \<open>const char *\<close>: the bytes before the first NUL. A buffer without a NUL is read
  past its end.
\<close>

definition read_c_string :: "cchar list \<Rightarrow> cchar list option" where
  "read_c_string buf = (if 0 \<in> set buf then Some (takeWhile (\<lambda>c. c \<noteq> 0) buf) else None)"

text \<open>\<open>std::string::c_str\<close>: the bytes of the string, then a NUL.\<close>

definition c_str :: "cchar list \<Rightarrow> cchar list" where
  "c_str s = s @ [0]"

subsection \<open>The functions of the JNI runtime\<close>

text \<open>
  The bridge uses what these functions return without testing it, so they are modelled
  where they come back with a result: on a valid reference. A managed string is immutable
  and is passed by value; a managed array is mutable and is passed by reference, and a
  reference that denotes no array is undefined behaviour. A buffer handed out is recorded
  under a pointer until its release.
\<close>

definition GetStringUTFChars :: "('e, 's) externals \<Rightarrow> 's \<Rightarrow> ('e, 's) world \<Rightarrow> (nptr \<times> ('e, 's) world) outcome" where
  "GetStringUTFChars X str w =
     (let p = next_buf w in
      Returns (p, logged (EvGetStringUTFChars str p)
                    (w\<lparr>cbufs := (cbufs w)(p \<mapsto> utf_chars X str @ [0]), next_buf := Suc p\<rparr>)))"

definition ReleaseStringUTFChars :: "'s \<Rightarrow> nptr \<Rightarrow> ('e, 's) world \<Rightarrow> (unit \<times> ('e, 's) world) outcome" where
  "ReleaseStringUTFChars str p w =
     (case cbufs w p of
        None \<Rightarrow> Undefined
      | Some buf \<Rightarrow> Returns ((), logged (EvReleaseStringUTFChars str p) (w\<lparr>cbufs := (cbufs w)(p := None)\<rparr>)))"

definition GetArrayLength :: "jfloatArray \<Rightarrow> ('e, 's) world \<Rightarrow> (jsize \<times> ('e, 's) world) outcome" where
  "GetArrayLength arr w =
     (case jarrays w arr of
        None \<Rightarrow> Undefined
      | Some xs \<Rightarrow> Returns (of_nat (length xs), logged (EvGetArrayLength arr) w))"

definition GetFloatArrayElements :: "jfloatArray \<Rightarrow> ('e, 's) world \<Rightarrow> (nptr \<times> ('e, 's) world) outcome" where
  "GetFloatArrayElements arr w =
     (case jarrays w arr of
        None \<Rightarrow> Undefined
      | Some xs \<Rightarrow>
          (let p = next_buf w in
           Returns (p, logged (EvGetFloatArrayElements arr p)
                         (w\<lparr>fbufs := (fbufs w)(p \<mapsto> xs), next_buf := Suc p\<rparr>))))"

text \<open>
  The mode decides what happens to the buffer: 0 copies it back into the array and frees
  it, \<open>JNI_COMMIT\<close> copies it back and keeps it, \<open>JNI_ABORT\<close> frees it and copies nothing.
\<close>

definition ReleaseFloatArrayElements ::
  "jfloatArray \<Rightarrow> nptr \<Rightarrow> jint \<Rightarrow> ('e, 's) world \<Rightarrow> (unit \<times> ('e, 's) world) outcome" where
  "ReleaseFloatArrayElements arr p mode w =
     (case (jarrays w arr, fbufs w p) of
        (Some xs, Some buf) \<Rightarrow>
          (let w1 = (if mode = JNI_ABORT then w else w\<lparr>jarrays := (jarrays w)(arr \<mapsto> buf)\<rparr>);
               w2 = (if mode = JNI_COMMIT then w1 else w1\<lparr>fbufs := (fbufs w1)(p := None)\<rparr>)
           in Returns ((), logged (EvReleaseFloatArrayElements arr p mode) w2))
      | _ \<Rightarrow> Undefined)"

definition NewStringUTF :: "('e, 's) externals \<Rightarrow> cchar list \<Rightarrow> ('e, 's) world \<Rightarrow> ('s \<times> ('e, 's) world) outcome" where
  "NewStringUTF X bytes w =
     (case read_c_string bytes of
        None \<Rightarrow> Undefined
      | Some s \<Rightarrow> Returns (new_string_utf X s, logged (EvNewStringUTF s) w))"

subsection \<open>The C++ the bridge uses\<close>

text \<open>\<open>new TFLiteEngine()\<close>: allocation, then the constructor.\<close>

definition new_TFLiteEngine :: "('e, 's) externals \<Rightarrow> ('e, 's) world \<Rightarrow> (jlong \<times> ('e, 's) world) outcome" where
  "new_TFLiteEngine X w =
     (case op_new X (engines w) of
        None \<Rightarrow> Aborts
      | Some a \<Rightarrow>
          (case engine_ctor X of
             None \<Rightarrow> Aborts
           | Some e \<Rightarrow> Returns (a, logged (EvNew a) (w\<lparr>engines := (engines w)(a \<mapsto> e)\<rparr>))))"

text \<open>\<open>delete engine\<close>.\<close>

definition delete_TFLiteEngine :: "jlong \<Rightarrow> ('e, 's) world \<Rightarrow> (unit \<times> ('e, 's) world) outcome" where
  "delete_TFLiteEngine a w =
     (case engines w a of
        None \<Rightarrow> Undefined
      | Some e \<Rightarrow> Returns ((), logged (EvDelete a) (w\<lparr>engines := (engines w)(a := None)\<rparr>)))"

text \<open>
  \<open>std::vector<float>(first, first + n)\<close>: the copy of \<open>n\<close> floats, starting at \<open>first\<close>.
\<close>

definition vector_from_range :: "nptr \<Rightarrow> jsize \<Rightarrow> ('e, 's) world \<Rightarrow> (jfloat list \<times> ('e, 's) world) outcome" where
  "vector_from_range first n w =
     (case fbufs w first of
        None \<Rightarrow> Undefined
      | Some buf \<Rightarrow>
          (if 0 \<le> sint n \<and> nat (sint n) \<le> length buf
           then Returns (take (nat (sint n)) buf, logged (EvVectorCopy first (take (nat (sint n)) buf)) w)
           else Undefined))"

text \<open>
  The calls through the \<open>TFLiteEngine *\<close>. The pointer is dereferenced as it came from the
  caller: one that is not the address of a live engine is undefined behaviour. The \<open>const
  char *\<close> arguments are the buffers of \<open>GetStringUTFChars\<close>, which the engine reads as C
  strings.
\<close>

definition call_loadModel ::
  "('e, 's) externals \<Rightarrow> jlong \<Rightarrow> nptr \<Rightarrow> bool \<Rightarrow> ('e, 's) world \<Rightarrow> (cint \<times> ('e, 's) world) outcome" where
  "call_loadModel X engine modelPathStr isMultilingual w =
     (case (engines w engine, Option.bind (cbufs w modelPathStr) read_c_string) of
        (Some e, Some path) \<Rightarrow>
          (case engine_loadModel X e path isMultilingual of
             None \<Rightarrow> Aborts
           | Some (result, e') \<Rightarrow>
               Returns (result, logged (EvEngineLoadModel engine path isMultilingual)
                                    (w\<lparr>engines := (engines w)(engine \<mapsto> e')\<rparr>)))
      | _ \<Rightarrow> Undefined)"

definition call_freeModel :: "('e, 's) externals \<Rightarrow> jlong \<Rightarrow> ('e, 's) world \<Rightarrow> (unit \<times> ('e, 's) world) outcome" where
  "call_freeModel X engine w =
     (case engines w engine of
        None \<Rightarrow> Undefined
      | Some e \<Rightarrow>
          (case engine_freeModel X e of
             None \<Rightarrow> Aborts
           | Some e' \<Rightarrow> Returns ((), logged (EvEngineFreeModel engine) (w\<lparr>engines := (engines w)(engine \<mapsto> e')\<rparr>))))"

definition call_transcribeBuffer ::
  "('e, 's) externals \<Rightarrow> jlong \<Rightarrow> jfloat list \<Rightarrow> ('e, 's) world \<Rightarrow> (cchar list \<times> ('e, 's) world) outcome" where
  "call_transcribeBuffer X engine sampleVector w =
     (case engines w engine of
        None \<Rightarrow> Undefined
      | Some e \<Rightarrow>
          (case engine_transcribeBuffer X e sampleVector of
             None \<Rightarrow> Aborts
           | Some (result, e') \<Rightarrow>
               Returns (result, logged (EvEngineTranscribeBuffer engine sampleVector)
                                    (w\<lparr>engines := (engines w)(engine \<mapsto> e')\<rparr>))))"

definition call_transcribeFile ::
  "('e, 's) externals \<Rightarrow> jlong \<Rightarrow> nptr \<Rightarrow> ('e, 's) world \<Rightarrow> (cchar list \<times> ('e, 's) world) outcome" where
  "call_transcribeFile X engine waveFileStr w =
     (case (engines w engine, Option.bind (cbufs w waveFileStr) read_c_string) of
        (Some e, Some path) \<Rightarrow>
          (case engine_transcribeFile X e path of
             None \<Rightarrow> Aborts
           | Some (result, e') \<Rightarrow>
               Returns (result, logged (EvEngineTranscribeFile engine path)
                                    (w\<lparr>engines := (engines w)(engine \<mapsto> e')\<rparr>)))
      | _ \<Rightarrow> Undefined)"

subsection \<open>The five exported functions\<close>

text \<open>
  \<open>reinterpret_cast\<close> between \<open>jlong\<close> and \<open>TFLiteEngine *\<close> keeps the bits: handles and
  addresses are both \<open>64 word\<close>. \<open>static_cast<bool>\<close> of a \<open>jboolean\<close> is its being nonzero.
\<close>

definition createTFLiteEngine :: "('e, 's) externals \<Rightarrow> ('e, 's) world \<Rightarrow> (jlong \<times> ('e, 's) world) outcome" where
  "createTFLiteEngine X =
     andThen (new_TFLiteEngine X) (\<lambda>engine.
     ret engine)"

definition loadModel ::
  "('e, 's) externals \<Rightarrow> jlong \<Rightarrow> 's \<Rightarrow> jboolean \<Rightarrow> ('e, 's) world \<Rightarrow> (jint \<times> ('e, 's) world) outcome" where
  "loadModel X nativePtr modelPath isMultilingual =
     andThen (GetStringUTFChars X modelPath) (\<lambda>modelPathStr.
     andThen (call_loadModel X nativePtr modelPathStr (isMultilingual \<noteq> 0)) (\<lambda>result.
     andThen (ReleaseStringUTFChars modelPath modelPathStr) (\<lambda>_.
     ret result)))"

definition freeModel :: "('e, 's) externals \<Rightarrow> jlong \<Rightarrow> ('e, 's) world \<Rightarrow> (unit \<times> ('e, 's) world) outcome" where
  "freeModel X nativePtr =
     andThen (call_freeModel X nativePtr) (\<lambda>_.
     delete_TFLiteEngine nativePtr)"

definition transcribeBuffer ::
  "('e, 's) externals \<Rightarrow> jlong \<Rightarrow> jfloatArray \<Rightarrow> ('e, 's) world \<Rightarrow> ('s \<times> ('e, 's) world) outcome" where
  "transcribeBuffer X nativePtr samples =
     andThen (GetArrayLength samples) (\<lambda>length.
     andThen (GetFloatArrayElements samples) (\<lambda>samplesPtr.
     andThen (vector_from_range samplesPtr length) (\<lambda>sampleVector.
     andThen (ReleaseFloatArrayElements samples samplesPtr JNI_ABORT) (\<lambda>_.
     andThen (call_transcribeBuffer X nativePtr sampleVector) (\<lambda>result.
     NewStringUTF X (c_str result))))))"

definition transcribeFile ::
  "('e, 's) externals \<Rightarrow> jlong \<Rightarrow> 's \<Rightarrow> ('e, 's) world \<Rightarrow> ('s \<times> ('e, 's) world) outcome" where
  "transcribeFile X nativePtr waveFile =
     andThen (GetStringUTFChars X waveFile) (\<lambda>waveFileStr.
     andThen (call_transcribeFile X nativePtr waveFileStr) (\<lambda>result.
     andThen (ReleaseStringUTFChars waveFile waveFileStr) (\<lambda>_.
     NewStringUTF X (c_str result))))"

subsection \<open>Conditions on the surroundings\<close>

text \<open>
  The pointers at and above \<open>next_buf\<close> have not been handed out: the JNI runtime returns a
  buffer that is not in use.
\<close>

definition fresh_pointers :: "('e, 's) world \<Rightarrow> bool" where
  "fresh_pointers w \<longleftrightarrow> (\<forall>p. next_buf w \<le> p \<longrightarrow> cbufs w p = None \<and> fbufs w p = None)"

text \<open>
  \<open>operator new\<close> returns storage that is not null and overlaps no live object.
\<close>

definition op_new_sound :: "('e, 's) externals \<Rightarrow> bool" where
  "op_new_sound X \<longleftrightarrow> (\<forall>heap a. op_new X heap = Some a \<longrightarrow> a \<noteq> 0 \<and> heap a = None)"

text \<open>
  Modelled from the spec: \<open>TFLiteEngine::loadModel\<close>, whose body (TFLiteEngine.cpp) is not
  among the sources. The spec says of it that loading from a path that names no model
  yields a nonzero status: "0 conventionally signals success; nonzero values are
  engine-defined failure codes", and "load() with a nonexistent model path returns a nonzero
  status". \<open>file_exists\<close> tells which paths name a file.
\<close>

definition rejects_missing_model :: "('e, 's) externals \<Rightarrow> (cchar list \<Rightarrow> bool) \<Rightarrow> bool" where
  "rejects_missing_model X file_exists \<longleftrightarrow>
     (\<forall>e path flag. \<not> file_exists path \<longrightarrow>
        (\<exists>status e'. engine_loadModel X e path flag = Some (status, e') \<and> status \<noteq> 0))"

text \<open>
  Modelled from the spec: \<open>TFLiteEngine::transcribeBuffer\<close>, whose body (TFLiteEngine.cpp) is
  not among the sources. The spec says of it that on an empty sample sequence a loaded
  engine comes back with a text ("an empty or engine-defined no-speech text, never a
  crash"). \<open>loaded\<close> tells which engine states hold a model.
\<close>

definition accepts_empty_buffer :: "('e, 's) externals \<Rightarrow> ('e \<Rightarrow> bool) \<Rightarrow> bool" where
  "accepts_empty_buffer X loaded \<longleftrightarrow>
     (\<forall>e. loaded e \<longrightarrow> (\<exists>transcript e'. engine_transcribeBuffer X e [] = Some (transcript, e')))"

subsection \<open>A small engine to run the bridge on\<close>

text \<open>
  An instance of the parameters, for running the bridge on concrete inputs. The state of
  the engine is the path of the model it holds, if any. Only the path \<open>m\<close> names a model;
  loading it gives status 0, any other path status 1. A loaded engine transcribes a buffer
  to the low bytes of its samples, the wave file \<open>w\<close> to \<open>ok\<close> and any other file to the
  three bytes \<open>a\<close>, NUL, \<open>b\<close>; an engine without a model throws. Managed strings are their
  own UTF bytes. Two addresses can be allocated.
\<close>

definition demo_externals :: "(cchar list option, cchar list) externals" where
  "demo_externals =
     \<lparr>op_new = (\<lambda>heap. if heap 0x1000 = None then Some 0x1000
                       else if heap 0x2000 = None then Some 0x2000 else None),
      engine_ctor = Some None,
      engine_loadModel = (\<lambda>e path flag. if path = [0x6D] then Some (0, Some path) else Some (1, e)),
      engine_freeModel = (\<lambda>e. Some None),
      engine_transcribeBuffer = (\<lambda>e xs. case e of None \<Rightarrow> None | Some m \<Rightarrow> Some (map ucast xs, e)),
      engine_transcribeFile = (\<lambda>e path. case e of None \<Rightarrow> None
                                 | Some m \<Rightarrow> Some (if path = [0x77] then [0x6F, 0x6B] else [0x61, 0, 0x62], e)),
      utf_chars = (\<lambda>s. s),
      new_string_utf = (\<lambda>bytes. bytes)\<rparr>"

text \<open>
  A world with one engine object at address \<open>0x1000\<close> (or none, for \<open>None\<close>) and three
  managed arrays: number 0 is empty, number 1 holds the samples \<open>0x61, 0, 0x62\<close>, number 2
  the samples \<open>0x68, 0x69\<close>.
\<close>

definition demo_world :: "cchar list option option \<Rightarrow> (cchar list option, cchar list) world" where
  "demo_world engine =
     \<lparr>engines = (\<lambda>a. if a = 0x1000 then engine else None),
      jarrays = (\<lambda>r. if r = 0 then Some [] else if r = 1 then Some [0x61, 0, 0x62]
                      else if r = 2 then Some [0x68, 0x69] else None),
      cbufs = Map.empty,
      fbufs = Map.empty,
      next_buf = 0,
      trace = []\<rparr>"

section \<open>What each exported function does\<close>

subsection \<open>C strings and lengths\<close>

lemma takeWhile_terminated:
  "takeWhile (\<lambda>c. c \<noteq> (0::cchar)) (s @ [0]) = takeWhile (\<lambda>c. c \<noteq> 0) s"
  by (induction s) auto

lemma read_c_string_terminated:
  "read_c_string (s @ [0]) = Some (takeWhile (\<lambda>c. c \<noteq> 0) s)"
  by (simp add: read_c_string_def takeWhile_terminated)

lemma read_c_string_c_str:
  "read_c_string (c_str s) = Some (takeWhile (\<lambda>c. c \<noteq> 0) s)"
  by (simp add: c_str_def read_c_string_terminated)

lemma takeWhile_no_NUL:
  "0 \<notin> set s \<Longrightarrow> takeWhile (\<lambda>c. c \<noteq> (0::cchar)) s = s"
  by (induction s) auto

lemma takeWhile_before_NUL:
  "0 \<notin> set pre \<Longrightarrow> takeWhile (\<lambda>c. c \<noteq> (0::cchar)) (pre @ 0 # post) = pre"
  by (induction pre) auto

lemma sint_array_length:
  "n < 2 ^ 31 \<Longrightarrow> sint (of_nat n :: jsize) = int n"
  by (simp add: signed_of_nat signed_take_bit_int_eq_self)

subsection \<open>On a live handle\<close>

text \<open>
  The outcome of each exported function when the handle is the address of a live engine and
  the engine comes back: the value returned and the world left behind.
\<close>

lemma createTFLiteEngine_outcome:
  "createTFLiteEngine X w =
     (case op_new X (engines w) of
        None \<Rightarrow> Aborts
      | Some a \<Rightarrow>
          (case engine_ctor X of
             None \<Rightarrow> Aborts
           | Some e \<Rightarrow> Returns (a, w\<lparr>engines := (engines w)(a \<mapsto> e), trace := trace w @ [EvNew a]\<rparr>)))"
  by (simp add: createTFLiteEngine_def andThen_def ret_def new_TFLiteEngine_def logged_def
      split: option.splits)

lemma loadModel_outcome:
  assumes "engines w nativePtr = Some e"
    and "engine_loadModel X e (takeWhile (\<lambda>c. c \<noteq> 0) (utf_chars X modelPath)) (isMultilingual \<noteq> 0) = Some (status, e')"
  shows "loadModel X nativePtr modelPath isMultilingual w =
    Returns (status, w\<lparr>engines := (engines w)(nativePtr \<mapsto> e'),
                       cbufs := (cbufs w)(next_buf w := None),
                       next_buf := Suc (next_buf w),
                       trace := trace w @
                         [EvGetStringUTFChars modelPath (next_buf w),
                          EvEngineLoadModel nativePtr (takeWhile (\<lambda>c. c \<noteq> 0) (utf_chars X modelPath)) (isMultilingual \<noteq> 0),
                          EvReleaseStringUTFChars modelPath (next_buf w)]\<rparr>)"
  using assms
  by (simp add: loadModel_def andThen_def ret_def GetStringUTFChars_def call_loadModel_def
      ReleaseStringUTFChars_def logged_def read_c_string_terminated Let_def)

lemma freeModel_outcome:
  assumes "engines w nativePtr = Some e"
    and "engine_freeModel X e = Some e'"
  shows "freeModel X nativePtr w =
    Returns ((), w\<lparr>engines := (engines w)(nativePtr := None),
                   trace := trace w @ [EvEngineFreeModel nativePtr, EvDelete nativePtr]\<rparr>)"
  using assms
  by (simp add: freeModel_def andThen_def call_freeModel_def delete_TFLiteEngine_def logged_def)

lemma transcribeBuffer_outcome:
  assumes "engines w nativePtr = Some e"
    and "jarrays w samples = Some xs"
    and "length xs < 2 ^ 31"
    and "engine_transcribeBuffer X e xs = Some (transcript, e')"
  shows "transcribeBuffer X nativePtr samples w =
    Returns (new_string_utf X (takeWhile (\<lambda>c. c \<noteq> 0) transcript),
             w\<lparr>engines := (engines w)(nativePtr \<mapsto> e'),
               fbufs := (fbufs w)(next_buf w := None),
               next_buf := Suc (next_buf w),
               trace := trace w @
                 [EvGetArrayLength samples,
                  EvGetFloatArrayElements samples (next_buf w),
                  EvVectorCopy (next_buf w) xs,
                  EvReleaseFloatArrayElements samples (next_buf w) JNI_ABORT,
                  EvEngineTranscribeBuffer nativePtr xs,
                  EvNewStringUTF (takeWhile (\<lambda>c. c \<noteq> 0) transcript)]\<rparr>)"
  using assms
  by (simp add: transcribeBuffer_def andThen_def GetArrayLength_def GetFloatArrayElements_def
      vector_from_range_def ReleaseFloatArrayElements_def call_transcribeBuffer_def
      NewStringUTF_def logged_def read_c_string_c_str sint_array_length Let_def JNI_ABORT_def JNI_COMMIT_def)

lemma transcribeFile_outcome:
  assumes "engines w nativePtr = Some e"
    and "engine_transcribeFile X e (takeWhile (\<lambda>c. c \<noteq> 0) (utf_chars X waveFile)) = Some (transcript, e')"
  shows "transcribeFile X nativePtr waveFile w =
    Returns (new_string_utf X (takeWhile (\<lambda>c. c \<noteq> 0) transcript),
             w\<lparr>engines := (engines w)(nativePtr \<mapsto> e'),
               cbufs := (cbufs w)(next_buf w := None),
               next_buf := Suc (next_buf w),
               trace := trace w @
                 [EvGetStringUTFChars waveFile (next_buf w),
                  EvEngineTranscribeFile nativePtr (takeWhile (\<lambda>c. c \<noteq> 0) (utf_chars X waveFile)),
                  EvReleaseStringUTFChars waveFile (next_buf w),
                  EvNewStringUTF (takeWhile (\<lambda>c. c \<noteq> 0) transcript)]\<rparr>)"
  using assms
  by (simp add: transcribeFile_def andThen_def GetStringUTFChars_def call_transcribeFile_def
      ReleaseStringUTFChars_def NewStringUTF_def logged_def read_c_string_terminated
      read_c_string_c_str Let_def)

subsection \<open>On a handle that is not live\<close>

lemma stale_loadModel: "engines w nativePtr = None \<Longrightarrow> loadModel X nativePtr p b w = Undefined"
  by (simp add: loadModel_def andThen_def GetStringUTFChars_def call_loadModel_def logged_def Let_def)

lemma stale_freeModel: "engines w nativePtr = None \<Longrightarrow> freeModel X nativePtr w = Undefined"
  by (simp add: freeModel_def andThen_def call_freeModel_def)

lemma stale_transcribeBuffer: "engines w nativePtr = None \<Longrightarrow> transcribeBuffer X nativePtr a w = Undefined"
  by (simp add: transcribeBuffer_def andThen_def GetArrayLength_def GetFloatArrayElements_def
      vector_from_range_def ReleaseFloatArrayElements_def call_transcribeBuffer_def logged_def Let_def
      JNI_ABORT_def JNI_COMMIT_def
      split: option.splits)

lemma stale_transcribeFile: "engines w nativePtr = None \<Longrightarrow> transcribeFile X nativePtr p w = Undefined"
  by (simp add: transcribeFile_def andThen_def GetStringUTFChars_def call_transcribeFile_def logged_def Let_def)

lemma loadModel_live:
  assumes "engines w nativePtr = Some e"
  shows "loadModel X nativePtr modelPath isMultilingual w \<noteq> Undefined"
  using assms
  by (simp add: loadModel_def andThen_def ret_def GetStringUTFChars_def call_loadModel_def
      ReleaseStringUTFChars_def logged_def read_c_string_terminated Let_def
      split: option.splits prod.splits)

subsection \<open>When a call returns\<close>

lemma loadModel_returns_inv:
  assumes "loadModel X nativePtr modelPath isMultilingual w = Returns (r, w')"
  shows "\<exists>e e'. engines w nativePtr = Some e \<and>
     engine_loadModel X e (takeWhile (\<lambda>c. c \<noteq> 0) (utf_chars X modelPath)) (isMultilingual \<noteq> 0) = Some (r, e')"
  using assms
  by (auto simp: loadModel_def andThen_def ret_def GetStringUTFChars_def call_loadModel_def
      ReleaseStringUTFChars_def logged_def read_c_string_terminated Let_def
      split: option.splits outcome.splits prod.splits)

lemma transcribeBuffer_returns_inv:
  assumes "transcribeBuffer X nativePtr samples w = Returns (r, w')"
  shows "\<exists>xs transcript. fbufs w' = (fbufs w)(next_buf w := None) \<and> cbufs w' = cbufs w \<and>
     trace w' = trace w @
       [EvGetArrayLength samples,
        EvGetFloatArrayElements samples (next_buf w),
        EvVectorCopy (next_buf w) xs,
        EvReleaseFloatArrayElements samples (next_buf w) JNI_ABORT,
        EvEngineTranscribeBuffer nativePtr xs,
        EvNewStringUTF transcript]"
  using assms
  by (auto simp: transcribeBuffer_def andThen_def GetArrayLength_def GetFloatArrayElements_def
      vector_from_range_def ReleaseFloatArrayElements_def call_transcribeBuffer_def
      NewStringUTF_def logged_def read_c_string_c_str Let_def JNI_ABORT_def JNI_COMMIT_def
      split: option.splits outcome.splits prod.splits if_splits)

lemma transcribeBuffer_next_buf:
  assumes "transcribeBuffer X nativePtr samples w = Returns (r, w')"
  shows "next_buf w' = Suc (next_buf w)"
  using assms
  by (auto simp: transcribeBuffer_def andThen_def GetArrayLength_def GetFloatArrayElements_def
      vector_from_range_def ReleaseFloatArrayElements_def call_transcribeBuffer_def
      NewStringUTF_def logged_def read_c_string_c_str Let_def JNI_ABORT_def JNI_COMMIT_def
      split: option.splits outcome.splits prod.splits if_splits)

lemma transcribeFile_returns_inv:
  assumes "transcribeFile X nativePtr waveFile w = Returns (r, w')"
  shows "\<exists>e transcript e'. engines w nativePtr = Some e \<and>
     engine_transcribeFile X e (takeWhile (\<lambda>c. c \<noteq> 0) (utf_chars X waveFile)) = Some (transcript, e')"
  using assms
  by (auto simp: transcribeFile_def andThen_def GetStringUTFChars_def call_transcribeFile_def
      ReleaseStringUTFChars_def logged_def read_c_string_terminated Let_def
      split: option.splits outcome.splits prod.splits)

subsection \<open>The pointers not yet handed out stay so\<close>

lemma fresh_pointers_unmap:
  "fresh_pointers w \<Longrightarrow> (cbufs w)(next_buf w := None) = cbufs w \<and> (fbufs w)(next_buf w := None) = fbufs w"
  by (auto simp: fresh_pointers_def)

lemma fresh_pointers_createTFLiteEngine:
  assumes "fresh_pointers w" and "createTFLiteEngine X w = Returns (r, w')"
  shows "fresh_pointers w'"
  using assms
  by (auto simp: createTFLiteEngine_outcome fresh_pointers_def split: option.splits)

lemma fresh_pointers_loadModel:
  assumes "fresh_pointers w" and "loadModel X nativePtr modelPath isMultilingual w = Returns (r, w')"
  shows "fresh_pointers w'"
proof -
  from loadModel_returns_inv [OF assms(2)] obtain e e' where
    "engines w nativePtr = Some e"
    "engine_loadModel X e (takeWhile (\<lambda>c. c \<noteq> 0) (utf_chars X modelPath)) (isMultilingual \<noteq> 0) = Some (r, e')"
    by blast
  from loadModel_outcome [OF this] assms show ?thesis
    by (auto simp: fresh_pointers_def)
qed

lemma fresh_pointers_freeModel:
  assumes "fresh_pointers w" and "freeModel X nativePtr w = Returns (r, w')"
  shows "fresh_pointers w'"
  using assms
  by (auto simp: freeModel_def andThen_def call_freeModel_def delete_TFLiteEngine_def logged_def
      fresh_pointers_def split: option.splits)

lemma fresh_pointers_transcribeBuffer:
  assumes "fresh_pointers w" and "transcribeBuffer X nativePtr samples w = Returns (r, w')"
  shows "fresh_pointers w'"
  using transcribeBuffer_returns_inv [OF assms(2)] transcribeBuffer_next_buf [OF assms(2)] assms(1)
  by (auto simp: fresh_pointers_def)

lemma fresh_pointers_transcribeFile:
  assumes "fresh_pointers w" and "transcribeFile X nativePtr waveFile w = Returns (r, w')"
  shows "fresh_pointers w'"
proof -
  from transcribeFile_returns_inv [OF assms(2)] obtain e transcript e' where
    "engines w nativePtr = Some e"
    "engine_transcribeFile X e (takeWhile (\<lambda>c. c \<noteq> 0) (utf_chars X waveFile)) = Some (transcript, e')"
    by blast
  from transcribeFile_outcome [OF this] assms show ?thesis
    by (auto simp: fresh_pointers_def)
qed

section \<open>The claims\<close>

text \<open>
  C1. On a live handle, \<open>loadModel\<close> hands the engine's load routine the UTF characters of
  the path and the truth value of the flag, and returns the status that routine returns, as
  it is. The engine is called once, between the acquisition and the release of the path's
  characters. (The modified UTF-8 of the JNI holds no zero byte, so the C string the engine
  reads is the whole encoding.)
\<close>

theorem loadModel_pass_through:
  assumes "engines w nativePtr = Some e"
    and "0 \<notin> set (utf_chars X modelPath)"
    and "engine_loadModel X e (utf_chars X modelPath) (isMultilingual \<noteq> 0) = Some (status, e')"
  shows "loadModel X nativePtr modelPath isMultilingual w =
    Returns (status, w\<lparr>engines := (engines w)(nativePtr \<mapsto> e'),
                       cbufs := (cbufs w)(next_buf w := None),
                       next_buf := Suc (next_buf w),
                       trace := trace w @
                         [EvGetStringUTFChars modelPath (next_buf w),
                          EvEngineLoadModel nativePtr (utf_chars X modelPath) (isMultilingual \<noteq> 0),
                          EvReleaseStringUTFChars modelPath (next_buf w)]\<rparr>)"
  using assms loadModel_outcome [of w nativePtr e X modelPath isMultilingual status e']
  by (simp add: takeWhile_no_NUL)

theorem loadModel_pass_through_witness:
  "loadModel demo_externals 0x1000 [0x78] 1 (demo_world (Some None)) =
     Returns (1, (demo_world (Some None))\<lparr>next_buf := 1,
        trace := [EvGetStringUTFChars [0x78] 0, EvEngineLoadModel 0x1000 [0x78] True,
                  EvReleaseStringUTFChars [0x78] 0]\<rparr>)
   \<and> loadModel demo_externals 0x1000 [0x6D] 0 (demo_world (Some None)) =
     Returns (0, (demo_world (Some (Some [0x6D])))\<lparr>next_buf := 1,
        trace := [EvGetStringUTFChars [0x6D] 0, EvEngineLoadModel 0x1000 [0x6D] False,
                  EvReleaseStringUTFChars [0x6D] 0]\<rparr>)"
  using loadModel_pass_through [of "demo_world (Some None)" "0x1000" "None" demo_externals "[0x78]" 1 1 None]
    loadModel_pass_through [of "demo_world (Some None)" "0x1000" "None" demo_externals "[0x6D]" 0 0 "Some [0x6D]"]
  by (simp add: demo_externals_def demo_world_def fun_eq_iff)

text \<open>
  C2. On a live handle and a managed array of \<open>xs\<close>, \<open>transcribeBuffer\<close> returns, and
  the calls it has made are, in this order: the length is read, the elements are borrowed,
  all of \<open>xs\<close> is copied into the vector, the elements are released with \<open>JNI_ABORT\<close>
  (nothing is written back), and only then the engine is called, on the copy. The managed
  arrays are afterwards what they were before. (A managed array has fewer than \<open>2^31\<close>
  elements.)
\<close>

theorem transcribeBuffer_copies_before_release:
  assumes "engines w nativePtr = Some e"
    and "jarrays w samples = Some xs"
    and "length xs < 2 ^ 31"
    and "engine_transcribeBuffer X e xs = Some (transcript, e')"
  shows "map_option trace (final (transcribeBuffer X nativePtr samples w)) =
           Some (trace w @
                 [EvGetArrayLength samples,
                  EvGetFloatArrayElements samples (next_buf w),
                  EvVectorCopy (next_buf w) xs,
                  EvReleaseFloatArrayElements samples (next_buf w) JNI_ABORT,
                  EvEngineTranscribeBuffer nativePtr xs,
                  EvNewStringUTF (takeWhile (\<lambda>c. c \<noteq> 0) transcript)])
       \<and> map_option jarrays (final (transcribeBuffer X nativePtr samples w)) = Some (jarrays w)"
  by (simp add: transcribeBuffer_outcome [OF assms])

theorem transcribeBuffer_copies_before_release_witness:
  "map_option trace (final (transcribeBuffer demo_externals 0x1000 2 (demo_world (Some (Some [0x6D]))))) =
           Some [EvGetArrayLength 2,
                  EvGetFloatArrayElements 2 0,
                  EvVectorCopy 0 [0x68, 0x69],
                  EvReleaseFloatArrayElements 2 0 JNI_ABORT,
                  EvEngineTranscribeBuffer 0x1000 [0x68, 0x69],
                  EvNewStringUTF [0x68, 0x69]]
       \<and> map_option jarrays (final (transcribeBuffer demo_externals 0x1000 2 (demo_world (Some (Some [0x6D]))))) =
           Some (jarrays (demo_world (Some (Some [0x6D]))))"
proof -
  have live: "engines (demo_world (Some (Some [0x6D]))) 0x1000 = Some (Some [0x6D])"
    by (simp add: demo_world_def)
  have arr: "jarrays (demo_world (Some (Some [0x6D]))) 2 = Some [0x68, 0x69]"
    by (simp add: demo_world_def)
  have len: "length [0x68, 0x69 :: jfloat] < 2 ^ 31"
    by simp
  have eng: "engine_transcribeBuffer demo_externals (Some [0x6D]) [0x68, 0x69] = Some ([0x68, 0x69], Some [0x6D])"
    by (simp add: demo_externals_def)
  from transcribeBuffer_copies_before_release [OF live arr len eng] show ?thesis
    by (simp add: demo_world_def del: map_option_eq_Some)
qed

text \<open>
  C3. The claim reads: on a live, loaded handle, \<open>transcribeBuffer\<close> and \<open>transcribeFile\<close>
  return the engine's transcription verbatim. The result goes through \<open>c_str\<close> and
  \<open>NewStringUTF\<close>, which reads a C string, so this holds for a transcription without a NUL
  character: the caller then gets the managed string of the whole text.
\<close>

theorem transcription_verbatim_without_NUL:
  assumes "engines w nativePtr = Some e"
  shows "(jarrays w samples = Some xs \<and> length xs < 2 ^ 31 \<and>
          engine_transcribeBuffer X e xs = Some (transcript, e') \<and> 0 \<notin> set transcript \<longrightarrow>
            returned (transcribeBuffer X nativePtr samples w) = Some (new_string_utf X transcript))
       \<and> (engine_transcribeFile X e (takeWhile (\<lambda>c. c \<noteq> 0) (utf_chars X waveFile)) = Some (transcript2, e2) \<and>
          0 \<notin> set transcript2 \<longrightarrow>
            returned (transcribeFile X nativePtr waveFile w) = Some (new_string_utf X transcript2))"
  using assms
  by (simp add: transcribeBuffer_outcome transcribeFile_outcome takeWhile_no_NUL)

theorem transcription_verbatim_without_NUL_witness:
  "returned (transcribeBuffer demo_externals 0x1000 2 (demo_world (Some (Some [0x6D])))) = Some [0x68, 0x69]
   \<and> returned (transcribeFile demo_externals 0x1000 [0x77] (demo_world (Some (Some [0x6D])))) = Some [0x6F, 0x6B]"
proof -
  have live: "engines (demo_world (Some (Some [0x6D]))) 0x1000 = Some (Some [0x6D])"
    by (simp add: demo_world_def)
  from transcription_verbatim_without_NUL [OF live, of 2 "[0x68, 0x69]" demo_externals "[0x68, 0x69]"
      "Some [0x6D]" "[0x77]" "[0x6F, 0x6B]" "Some [0x6D]"]
  show ?thesis
    by (simp add: demo_world_def demo_externals_def)
qed

text \<open>
  C3, as it is written, fails on an engine whose transcription holds a NUL: the engine
  yields the three bytes \<open>a\<close>, NUL, \<open>b\<close>, and the caller gets \<open>a\<close>.
\<close>

theorem transcription_verbatim_counterexample:
  "engine_transcribeFile demo_externals (Some [0x6D]) [0x78] = Some ([0x61, 0, 0x62], Some [0x6D])
   \<and> returned (transcribeFile demo_externals 0x1000 [0x78] (demo_world (Some (Some [0x6D])))) = Some [0x61]
   \<and> returned (transcribeFile demo_externals 0x1000 [0x78] (demo_world (Some (Some [0x6D]))))
       \<noteq> Some (new_string_utf demo_externals [0x61, 0, 0x62])"
proof -
  have live: "engines (demo_world (Some (Some [0x6D]))) 0x1000 = Some (Some [0x6D])"
    by (simp add: demo_world_def)
  have eng: "engine_transcribeFile demo_externals (Some [0x6D])
      (takeWhile (\<lambda>c. c \<noteq> 0) (utf_chars demo_externals [0x78])) = Some ([0x61, 0, 0x62], Some [0x6D])"
    by (simp add: demo_externals_def)
  from transcribeFile_outcome [OF live eng] show ?thesis
    by (simp add: demo_externals_def)
qed

text \<open>
  C4. \<open>createTFLiteEngine\<close> has no undefined behaviour and signals no error: when
  \<open>operator new\<close> and the constructor come back, it returns the address of the new object
  (otherwise the process aborts). A handle it returns is not null, is not the handle of any
  engine that was live before the call, and afterwards denotes a freshly constructed engine;
  the engines that were live are untouched. (\<open>operator new\<close> is taken to return storage that
  is not null and not in use.)
\<close>

theorem createTFLiteEngine_fresh_handle:
  assumes "op_new_sound X"
  shows "createTFLiteEngine X w \<noteq> Undefined
       \<and> (op_new X (engines w) \<noteq> None \<and> engine_ctor X \<noteq> None \<longrightarrow>
            returned (createTFLiteEngine X w) = op_new X (engines w))
       \<and> (\<forall>handle w'. createTFLiteEngine X w = Returns (handle, w') \<longrightarrow>
            handle \<noteq> 0 \<and> engines w handle = None \<and>
            engine_ctor X \<noteq> None \<and> engines w' handle = engine_ctor X \<and>
            (\<forall>other. other \<noteq> handle \<longrightarrow> engines w' other = engines w other) \<and>
            trace w' = trace w @ [EvNew handle])"
  using assms
  by (auto simp: createTFLiteEngine_outcome op_new_sound_def split: option.splits)

theorem createTFLiteEngine_fresh_handle_witness:
  "op_new_sound demo_externals
   \<and> engines (demo_world (Some None)) 0x1000 = Some None
   \<and> engines (demo_world (Some None)) 0x2000 = None
   \<and> returned (createTFLiteEngine demo_externals (demo_world (Some None))) = Some 0x2000
   \<and> map_option (\<lambda>w'. (engines w' 0x1000, engines w' 0x2000, trace w'))
         (final (createTFLiteEngine demo_externals (demo_world (Some None)))) =
       Some (Some None, Some None, [EvNew 0x2000])"
proof -
  have sound: "op_new_sound demo_externals"
    by (simp add: op_new_sound_def demo_externals_def)
  note fresh = createTFLiteEngine_fresh_handle [OF sound, of "demo_world (Some None)"]
  have handle: "returned (createTFLiteEngine demo_externals (demo_world (Some None))) = Some 0x2000"
    using fresh by (simp add: demo_externals_def demo_world_def)
  then obtain w' where r: "createTFLiteEngine demo_externals (demo_world (Some None)) = Returns (0x2000, w')"
    by (cases "createTFLiteEngine demo_externals (demo_world (Some None))") auto
  from fresh r
  have "engines w' 0x2000 = Some None" and "engines w' 0x1000 = Some None" and "trace w' = [EvNew 0x2000]"
    by (simp_all add: demo_externals_def demo_world_def)
  with sound handle r show ?thesis
    by (simp add: demo_world_def)
qed

text \<open>
  C5. On a live handle, \<open>freeModel\<close> makes two calls, in this order: the engine's
  \<open>freeModel\<close>, then \<open>delete\<close> of the engine object; afterwards the object is no longer
  live.
\<close>

theorem freeModel_two_steps:
  assumes "engines w nativePtr = Some e"
    and "engine_freeModel X e = Some e'"
  shows "map_option trace (final (freeModel X nativePtr w)) =
           Some (trace w @ [EvEngineFreeModel nativePtr, EvDelete nativePtr])
       \<and> map_option engines (final (freeModel X nativePtr w)) = Some ((engines w)(nativePtr := None))"
  by (simp add: freeModel_outcome [OF assms])

theorem freeModel_two_steps_witness:
  "map_option trace (final (freeModel demo_externals 0x1000 (demo_world (Some (Some [0x6D]))))) =
           Some [EvEngineFreeModel 0x1000, EvDelete 0x1000]
       \<and> map_option engines (final (freeModel demo_externals 0x1000 (demo_world (Some (Some [0x6D]))))) =
           Some (engines (demo_world None))"
  using freeModel_two_steps [of "demo_world (Some (Some [0x6D]))" "0x1000" "Some [0x6D]" demo_externals None]
  by (simp add: demo_externals_def demo_world_def fun_eq_iff del: map_option_eq_Some)

text \<open>
  C6. With an engine that answers a path naming no model by a nonzero status
  (\<open>rejects_missing_model\<close>), \<open>loadModel\<close> on a live handle and such a path returns a
  nonzero status and leaves the handle live, no engine being created or destroyed. A further
  \<open>loadModel\<close> on the same handle, with any path, has no undefined behaviour, and returns
  the status of the engine whenever the engine comes back.
\<close>

theorem loadModel_failure_keeps_handle:
  assumes "rejects_missing_model X file_exists"
    and "engines w nativePtr = Some e"
    and "0 \<notin> set (utf_chars X modelPath)"
    and "\<not> file_exists (utf_chars X modelPath)"
  shows "\<exists>status w1 e1.
           loadModel X nativePtr modelPath isMultilingual w = Returns (status, w1) \<and>
           status \<noteq> 0 \<and>
           engines w1 nativePtr = Some e1 \<and>
           dom (engines w1) = dom (engines w) \<and>
           (\<forall>path2 flag2.
              loadModel X nativePtr path2 flag2 w1 \<noteq> Undefined \<and>
              (\<forall>status2 e2.
                 engine_loadModel X e1 (takeWhile (\<lambda>c. c \<noteq> 0) (utf_chars X path2)) (flag2 \<noteq> 0) = Some (status2, e2) \<longrightarrow>
                   returned (loadModel X nativePtr path2 flag2 w1) = Some status2))"
proof -
  from assms(1,4) obtain status e1 where
    eng: "engine_loadModel X e (utf_chars X modelPath) (isMultilingual \<noteq> 0) = Some (status, e1)"
    and nz: "status \<noteq> 0"
    unfolding rejects_missing_model_def by blast
  define w1 where "w1 = w\<lparr>engines := (engines w)(nativePtr \<mapsto> e1),
                       cbufs := (cbufs w)(next_buf w := None),
                       next_buf := Suc (next_buf w),
                       trace := trace w @
                         [EvGetStringUTFChars modelPath (next_buf w),
                          EvEngineLoadModel nativePtr (takeWhile (\<lambda>c. c \<noteq> 0) (utf_chars X modelPath)) (isMultilingual \<noteq> 0),
                          EvReleaseStringUTFChars modelPath (next_buf w)]\<rparr>"
  from eng assms(3) have "engine_loadModel X e (takeWhile (\<lambda>c. c \<noteq> 0) (utf_chars X modelPath))
      (isMultilingual \<noteq> 0) = Some (status, e1)"
    by (simp add: takeWhile_no_NUL)
  from loadModel_outcome [OF assms(2) this]
  have r: "loadModel X nativePtr modelPath isMultilingual w = Returns (status, w1)"
    by (simp add: w1_def)
  have live1: "engines w1 nativePtr = Some e1"
    by (simp add: w1_def)
  have dom1: "dom (engines w1) = dom (engines w)"
    using assms(2) by (auto simp: w1_def)
  have again: "loadModel X nativePtr path2 flag2 w1 \<noteq> Undefined \<and>
              (\<forall>status2 e2.
                 engine_loadModel X e1 (takeWhile (\<lambda>c. c \<noteq> 0) (utf_chars X path2)) (flag2 \<noteq> 0) = Some (status2, e2) \<longrightarrow>
                   returned (loadModel X nativePtr path2 flag2 w1) = Some status2)" for path2 flag2
    using loadModel_live [OF live1] by (simp add: loadModel_outcome [OF live1])
  from r nz live1 dom1 again show ?thesis
    by blast
qed

theorem loadModel_failure_keeps_handle_witness:
  "rejects_missing_model demo_externals (\<lambda>path. path = [0x6D])
   \<and> returned (loadModel demo_externals 0x1000 [0x78] 0 (demo_world (Some None))) = Some 1
   \<and> returned (andThen (loadModel demo_externals 0x1000 [0x78] 0)
                 (\<lambda>_. loadModel demo_externals 0x1000 [0x6D] 0) (demo_world (Some None))) = Some 0"
proof -
  let ?w = "demo_world (Some None)"
  have contract: "rejects_missing_model demo_externals (\<lambda>path. path = [0x6D])"
    by (simp add: rejects_missing_model_def demo_externals_def)
  have live: "engines ?w 0x1000 = Some None"
    by (simp add: demo_world_def)
  have path: "0 \<notin> set (utf_chars demo_externals [0x78])" "\<not> utf_chars demo_externals [0x78] = [0x6D]"
    by (simp_all add: demo_externals_def)
  from loadModel_failure_keeps_handle [of demo_externals "\<lambda>path. path = [0x6D]", OF contract live path, of 0]
  obtain status w1 e1 where
    r: "loadModel demo_externals 0x1000 [0x78] 0 ?w = Returns (status, w1)"
    and again: "\<And>status2 e2.
      engine_loadModel demo_externals e1 (takeWhile (\<lambda>c. c \<noteq> 0) (utf_chars demo_externals [0x6D])) ((0::jboolean) \<noteq> 0)
        = Some (status2, e2) \<Longrightarrow>
      returned (loadModel demo_externals 0x1000 [0x6D] 0 w1) = Some status2"
    by blast
  from r loadModel_returns_inv [OF r] have "status = 1"
    by (auto simp: demo_externals_def)
  moreover have "returned (loadModel demo_externals 0x1000 [0x6D] 0 w1) = Some 0"
    by (rule again [of 0 "Some [0x6D]"]) (simp add: demo_externals_def)
  ultimately show ?thesis
    using contract r by (simp add: andThen_def)
qed

text \<open>
  C7. With an engine that comes back with a text on an empty sample sequence when it holds
  a model (\<open>accepts_empty_buffer\<close>), \<open>transcribeBuffer\<close> on a live, loaded handle and an
  empty managed array returns, and what it returns is the managed string of that text of
  the engine.
\<close>

theorem transcribeBuffer_empty:
  assumes "accepts_empty_buffer X loaded"
    and "engines w nativePtr = Some e"
    and "loaded e"
    and "jarrays w samples = Some []"
  shows "\<exists>transcript e'.
           engine_transcribeBuffer X e [] = Some (transcript, e') \<and>
           returned (transcribeBuffer X nativePtr samples w) =
             Some (new_string_utf X (takeWhile (\<lambda>c. c \<noteq> 0) transcript))"
proof -
  from assms(1,3) obtain transcript e' where
    eng: "engine_transcribeBuffer X e [] = Some (transcript, e')"
    unfolding accepts_empty_buffer_def by blast
  have "length ([] :: jfloat list) < 2 ^ 31"
    by simp
  from transcribeBuffer_outcome [OF assms(2) assms(4) this eng] eng show ?thesis
    by simp
qed

theorem transcribeBuffer_empty_witness:
  "accepts_empty_buffer demo_externals (\<lambda>e. e \<noteq> None)
   \<and> returned (transcribeBuffer demo_externals 0x1000 0 (demo_world (Some (Some [0x6D])))) = Some []"
proof -
  let ?w = "demo_world (Some (Some [0x6D]))"
  have contract: "accepts_empty_buffer demo_externals (\<lambda>e. e \<noteq> None)"
    by (auto simp: accepts_empty_buffer_def demo_externals_def)
  have live: "engines ?w 0x1000 = Some (Some [0x6D])" and arr: "jarrays ?w 0 = Some []"
    by (simp_all add: demo_world_def)
  have loaded: "Some [0x6D :: cchar] \<noteq> None"
    by simp
  from transcribeBuffer_empty [of demo_externals "\<lambda>e. e \<noteq> None", OF contract live loaded arr] contract
  show ?thesis
    by (auto simp: demo_externals_def)
qed

text \<open>
  C8. What each exported function comes to, case by case. \<open>loadModel\<close> returns the status
  the engine yields, whatever its value, and leaves the engine live in the state the engine
  left it in: a failed load is reported by that value and by nothing else, and the bridge
  does not look into it. The four others return no value that reports a failure:
  \<open>createTFLiteEngine\<close> returns only the address of the object it has built, \<open>freeModel\<close>
  returns only after the engine's \<open>freeModel\<close> and the \<open>delete\<close>, and the two transcribe
  functions return only the managed string \<open>NewStringUTF\<close> makes of the text the engine came
  back with. Beside returning, a function is undefined when the handle is not live (or
  the array reference denotes no array), and the process ends when the engine, \<open>operator
  new\<close> or the constructor does not come back. The calls of each function are those of its
  trace and no other: the bridge raises no managed exception. (A managed array has fewer
  than \<open>2^31\<close> elements.)
\<close>

theorem status_is_the_only_error_channel:
  "loadModel X nativePtr modelPath isMultilingual w =
     (case engines w nativePtr of
        None \<Rightarrow> Undefined
      | Some e \<Rightarrow>
          (case engine_loadModel X e (takeWhile (\<lambda>c. c \<noteq> 0) (utf_chars X modelPath)) (isMultilingual \<noteq> 0) of
             None \<Rightarrow> Aborts
           | Some (status, e') \<Rightarrow>
               Returns (status,
                 w\<lparr>engines := (engines w)(nativePtr \<mapsto> e'),
                   cbufs := (cbufs w)(next_buf w := None),
                   next_buf := Suc (next_buf w),
                   trace := trace w @
                     [EvGetStringUTFChars modelPath (next_buf w),
                      EvEngineLoadModel nativePtr (takeWhile (\<lambda>c. c \<noteq> 0) (utf_chars X modelPath)) (isMultilingual \<noteq> 0),
                      EvReleaseStringUTFChars modelPath (next_buf w)]\<rparr>)))
   \<and> createTFLiteEngine X w =
     (case op_new X (engines w) of
        None \<Rightarrow> Aborts
      | Some a \<Rightarrow>
          (case engine_ctor X of
             None \<Rightarrow> Aborts
           | Some e \<Rightarrow> Returns (a, w\<lparr>engines := (engines w)(a \<mapsto> e), trace := trace w @ [EvNew a]\<rparr>)))
   \<and> freeModel X nativePtr w =
     (case engines w nativePtr of
        None \<Rightarrow> Undefined
      | Some e \<Rightarrow>
          (case engine_freeModel X e of
             None \<Rightarrow> Aborts
           | Some e' \<Rightarrow>
               Returns ((),
                 w\<lparr>engines := (engines w)(nativePtr := None),
                   trace := trace w @ [EvEngineFreeModel nativePtr, EvDelete nativePtr]\<rparr>)))
   \<and> transcribeFile X nativePtr waveFile w =
     (case engines w nativePtr of
        None \<Rightarrow> Undefined
      | Some e \<Rightarrow>
          (case engine_transcribeFile X e (takeWhile (\<lambda>c. c \<noteq> 0) (utf_chars X waveFile)) of
             None \<Rightarrow> Aborts
           | Some (transcript, e') \<Rightarrow>
               Returns (new_string_utf X (takeWhile (\<lambda>c. c \<noteq> 0) transcript),
                 w\<lparr>engines := (engines w)(nativePtr \<mapsto> e'),
                   cbufs := (cbufs w)(next_buf w := None),
                   next_buf := Suc (next_buf w),
                   trace := trace w @
                     [EvGetStringUTFChars waveFile (next_buf w),
                      EvEngineTranscribeFile nativePtr (takeWhile (\<lambda>c. c \<noteq> 0) (utf_chars X waveFile)),
                      EvReleaseStringUTFChars waveFile (next_buf w),
                      EvNewStringUTF (takeWhile (\<lambda>c. c \<noteq> 0) transcript)]\<rparr>)))
   \<and> (jarrays w samples = None \<longrightarrow> transcribeBuffer X nativePtr samples w = Undefined)
   \<and> (jarrays w samples = Some xs \<and> length xs < 2 ^ 31 \<longrightarrow>
       transcribeBuffer X nativePtr samples w =
         (case engines w nativePtr of
            None \<Rightarrow> Undefined
          | Some e \<Rightarrow>
              (case engine_transcribeBuffer X e xs of
                 None \<Rightarrow> Aborts
               | Some (transcript, e') \<Rightarrow>
                   Returns (new_string_utf X (takeWhile (\<lambda>c. c \<noteq> 0) transcript),
                     w\<lparr>engines := (engines w)(nativePtr \<mapsto> e'),
                       fbufs := (fbufs w)(next_buf w := None),
                       next_buf := Suc (next_buf w),
                       trace := trace w @
                         [EvGetArrayLength samples,
                          EvGetFloatArrayElements samples (next_buf w),
                          EvVectorCopy (next_buf w) xs,
                          EvReleaseFloatArrayElements samples (next_buf w) JNI_ABORT,
                          EvEngineTranscribeBuffer nativePtr xs,
                          EvNewStringUTF (takeWhile (\<lambda>c. c \<noteq> 0) transcript)]\<rparr>))))"
proof (intro conjI impI)
  show "loadModel X nativePtr modelPath isMultilingual w =
     (case engines w nativePtr of
        None \<Rightarrow> Undefined
      | Some e \<Rightarrow>
          (case engine_loadModel X e (takeWhile (\<lambda>c. c \<noteq> 0) (utf_chars X modelPath)) (isMultilingual \<noteq> 0) of
             None \<Rightarrow> Aborts
           | Some (status, e') \<Rightarrow>
               Returns (status,
                 w\<lparr>engines := (engines w)(nativePtr \<mapsto> e'),
                   cbufs := (cbufs w)(next_buf w := None),
                   next_buf := Suc (next_buf w),
                   trace := trace w @
                     [EvGetStringUTFChars modelPath (next_buf w),
                      EvEngineLoadModel nativePtr (takeWhile (\<lambda>c. c \<noteq> 0) (utf_chars X modelPath)) (isMultilingual \<noteq> 0),
                      EvReleaseStringUTFChars modelPath (next_buf w)]\<rparr>)))"
  proof (cases "engines w nativePtr")
    case None
    then show ?thesis by (simp add: stale_loadModel)
  next
    case (Some e)
    show ?thesis
    proof (cases "engine_loadModel X e (takeWhile (\<lambda>c. c \<noteq> 0) (utf_chars X modelPath)) (isMultilingual \<noteq> 0)")
      case None
      with Some show ?thesis
        by (simp add: loadModel_def andThen_def GetStringUTFChars_def call_loadModel_def
            logged_def read_c_string_terminated Let_def)
    next
      case (Some r)
      obtain status e' where "r = (status, e')" by (cases r)
      with Some \<open>engines w nativePtr = Some e\<close> show ?thesis
        by (simp add: loadModel_outcome)
    qed
  qed
next
  show "createTFLiteEngine X w =
     (case op_new X (engines w) of
        None \<Rightarrow> Aborts
      | Some a \<Rightarrow>
          (case engine_ctor X of
             None \<Rightarrow> Aborts
           | Some e \<Rightarrow> Returns (a, w\<lparr>engines := (engines w)(a \<mapsto> e), trace := trace w @ [EvNew a]\<rparr>)))"
    by (rule createTFLiteEngine_outcome)
next
  show "freeModel X nativePtr w =
     (case engines w nativePtr of
        None \<Rightarrow> Undefined
      | Some e \<Rightarrow>
          (case engine_freeModel X e of
             None \<Rightarrow> Aborts
           | Some e' \<Rightarrow>
               Returns ((),
                 w\<lparr>engines := (engines w)(nativePtr := None),
                   trace := trace w @ [EvEngineFreeModel nativePtr, EvDelete nativePtr]\<rparr>)))"
    by (simp add: freeModel_def andThen_def call_freeModel_def delete_TFLiteEngine_def logged_def
        split: option.splits)
next
  show "transcribeFile X nativePtr waveFile w =
     (case engines w nativePtr of
        None \<Rightarrow> Undefined
      | Some e \<Rightarrow>
          (case engine_transcribeFile X e (takeWhile (\<lambda>c. c \<noteq> 0) (utf_chars X waveFile)) of
             None \<Rightarrow> Aborts
           | Some (transcript, e') \<Rightarrow>
               Returns (new_string_utf X (takeWhile (\<lambda>c. c \<noteq> 0) transcript),
                 w\<lparr>engines := (engines w)(nativePtr \<mapsto> e'),
                   cbufs := (cbufs w)(next_buf w := None),
                   next_buf := Suc (next_buf w),
                   trace := trace w @
                     [EvGetStringUTFChars waveFile (next_buf w),
                      EvEngineTranscribeFile nativePtr (takeWhile (\<lambda>c. c \<noteq> 0) (utf_chars X waveFile)),
                      EvReleaseStringUTFChars waveFile (next_buf w),
                      EvNewStringUTF (takeWhile (\<lambda>c. c \<noteq> 0) transcript)]\<rparr>)))"
  proof (cases "engines w nativePtr")
    case None
    then show ?thesis by (simp add: stale_transcribeFile)
  next
    case (Some e)
    show ?thesis
    proof (cases "engine_transcribeFile X e (takeWhile (\<lambda>c. c \<noteq> 0) (utf_chars X waveFile))")
      case None
      with Some show ?thesis
        by (simp add: transcribeFile_def andThen_def GetStringUTFChars_def call_transcribeFile_def
            logged_def read_c_string_terminated Let_def)
    next
      case (Some r)
      obtain transcript e' where "r = (transcript, e')" by (cases r)
      with Some \<open>engines w nativePtr = Some e\<close> show ?thesis
        by (simp add: transcribeFile_outcome)
    qed
  qed
next
  assume "jarrays w samples = None"
  then show "transcribeBuffer X nativePtr samples w = Undefined"
    by (simp add: transcribeBuffer_def andThen_def GetArrayLength_def)
next
  assume arr: "jarrays w samples = Some xs \<and> length xs < 2 ^ 31"
  show "transcribeBuffer X nativePtr samples w =
         (case engines w nativePtr of
            None \<Rightarrow> Undefined
          | Some e \<Rightarrow>
              (case engine_transcribeBuffer X e xs of
                 None \<Rightarrow> Aborts
               | Some (transcript, e') \<Rightarrow>
                   Returns (new_string_utf X (takeWhile (\<lambda>c. c \<noteq> 0) transcript),
                     w\<lparr>engines := (engines w)(nativePtr \<mapsto> e'),
                       fbufs := (fbufs w)(next_buf w := None),
                       next_buf := Suc (next_buf w),
                       trace := trace w @
                         [EvGetArrayLength samples,
                          EvGetFloatArrayElements samples (next_buf w),
                          EvVectorCopy (next_buf w) xs,
                          EvReleaseFloatArrayElements samples (next_buf w) JNI_ABORT,
                          EvEngineTranscribeBuffer nativePtr xs,
                          EvNewStringUTF (takeWhile (\<lambda>c. c \<noteq> 0) transcript)]\<rparr>)))"
  proof (cases "engines w nativePtr")
    case None
    then show ?thesis by (simp add: stale_transcribeBuffer)
  next
    case (Some e)
    show ?thesis
    proof (cases "engine_transcribeBuffer X e xs")
      case None
      with Some arr show ?thesis
        by (simp add: transcribeBuffer_def andThen_def GetArrayLength_def GetFloatArrayElements_def
            vector_from_range_def ReleaseFloatArrayElements_def call_transcribeBuffer_def
            logged_def sint_array_length Let_def JNI_ABORT_def JNI_COMMIT_def)
    next
      case (Some r)
      obtain transcript e' where "r = (transcript, e')" by (cases r)
      with Some \<open>engines w nativePtr = Some e\<close> arr show ?thesis
        by (simp add: transcribeBuffer_outcome)
    qed
  qed
qed

theorem status_is_the_only_error_channel_witness:
  "loadModel demo_externals 0x2000 [0x6D] 0 (demo_world (Some None)) = Undefined
   \<and> freeModel demo_externals 0x2000 (demo_world (Some None)) = Undefined
   \<and> transcribeFile demo_externals 0x2000 [0x77] (demo_world (Some None)) = Undefined
   \<and> transcribeBuffer demo_externals 0x2000 2 (demo_world (Some None)) = Undefined
   \<and> transcribeBuffer demo_externals 0x1000 3 (demo_world (Some None)) = Undefined
   \<and> transcribeBuffer demo_externals 0x1000 2 (demo_world (Some None)) = Aborts
   \<and> transcribeFile demo_externals 0x1000 [0x77] (demo_world (Some None)) = Aborts
   \<and> returned (loadModel demo_externals 0x1000 [0x78] 0 (demo_world (Some (Some [0x6D])))) = Some 1
   \<and> map_option (\<lambda>w'. engines w' 0x1000)
         (final (loadModel demo_externals 0x1000 [0x78] 0 (demo_world (Some (Some [0x6D]))))) =
       Some (Some (Some [0x6D]))
   \<and> returned (loadModel demo_externals 0x1000 [0x6D] 0 (demo_world (Some None))) = Some 0
   \<and> map_option (\<lambda>w'. (engines w' 0x1000, trace w'))
         (final (freeModel demo_externals 0x1000 (demo_world (Some (Some [0x6D]))))) =
       Some (None, [EvEngineFreeModel 0x1000, EvDelete 0x1000])
   \<and> returned (transcribeBuffer demo_externals 0x1000 2 (demo_world (Some (Some [0x6D])))) = Some [0x68, 0x69]
   \<and> returned (transcribeFile demo_externals 0x1000 [0x77] (demo_world (Some (Some [0x6D])))) = Some [0x6F, 0x6B]
   \<and> returned (createTFLiteEngine demo_externals (demo_world (Some (Some [0x6D])))) = Some 0x2000"
proof -
  note stale = status_is_the_only_error_channel
    [of demo_externals "0x2000" "[0x6D]" 0 "demo_world (Some None)" "[0x77]" 2 "[0x68, 0x69]"]
  note no_array = status_is_the_only_error_channel
    [of demo_externals "0x1000" "[0x6D]" 0 "demo_world (Some None)" "[0x77]" 3 "[]"]
  note unloaded = status_is_the_only_error_channel
    [of demo_externals "0x1000" "[0x6D]" 0 "demo_world (Some None)" "[0x77]" 2 "[0x68, 0x69]"]
  note loaded = status_is_the_only_error_channel
    [of demo_externals "0x1000" "[0x78]" 0 "demo_world (Some (Some [0x6D]))" "[0x77]" 2 "[0x68, 0x69]"]
  have a: "loadModel demo_externals 0x2000 [0x6D] 0 (demo_world (Some None)) = Undefined
   \<and> freeModel demo_externals 0x2000 (demo_world (Some None)) = Undefined
   \<and> transcribeFile demo_externals 0x2000 [0x77] (demo_world (Some None)) = Undefined
   \<and> transcribeBuffer demo_externals 0x2000 2 (demo_world (Some None)) = Undefined"
    using stale by (simp add: demo_world_def)
  have b: "transcribeBuffer demo_externals 0x1000 3 (demo_world (Some None)) = Undefined"
    using no_array by (simp add: demo_world_def)
  have c: "transcribeBuffer demo_externals 0x1000 2 (demo_world (Some None)) = Aborts
   \<and> transcribeFile demo_externals 0x1000 [0x77] (demo_world (Some None)) = Aborts
   \<and> returned (loadModel demo_externals 0x1000 [0x6D] 0 (demo_world (Some None))) = Some 0"
    using unloaded by (simp add: demo_world_def demo_externals_def)
  have d: "returned (loadModel demo_externals 0x1000 [0x78] 0 (demo_world (Some (Some [0x6D])))) = Some 1
   \<and> map_option (\<lambda>w'. engines w' 0x1000)
         (final (loadModel demo_externals 0x1000 [0x78] 0 (demo_world (Some (Some [0x6D]))))) =
       Some (Some (Some [0x6D]))
   \<and> map_option (\<lambda>w'. (engines w' 0x1000, trace w'))
         (final (freeModel demo_externals 0x1000 (demo_world (Some (Some [0x6D]))))) =
       Some (None, [EvEngineFreeModel 0x1000, EvDelete 0x1000])
   \<and> returned (transcribeBuffer demo_externals 0x1000 2 (demo_world (Some (Some [0x6D])))) = Some [0x68, 0x69]
   \<and> returned (transcribeFile demo_externals 0x1000 [0x77] (demo_world (Some (Some [0x6D])))) = Some [0x6F, 0x6B]
   \<and> returned (createTFLiteEngine demo_externals (demo_world (Some (Some [0x6D])))) = Some 0x2000"
    using loaded by (simp add: demo_world_def demo_externals_def)
  from a b c d show ?thesis
    by simp
qed

text \<open>
  C9. Whenever \<open>loadModel\<close>, \<open>transcribeBuffer\<close> or \<open>transcribeFile\<close> returns, the calls
  it has made hold one acquisition (\<open>GetStringUTFChars\<close>, \<open>GetFloatArrayElements\<close>) and
  one release of the same object and the same pointer, the release after the acquisition,
  and the native buffers that are handed out are those that were handed out before the call:
  nothing stays borrowed. (The JNI runtime hands out a pointer that is not in use,
  \<open>fresh_pointers\<close>.)
\<close>

theorem borrows_released:
  assumes "fresh_pointers w"
  shows "(\<forall>r w'. loadModel X nativePtr modelPath isMultilingual w = Returns (r, w') \<longrightarrow>
            cbufs w' = cbufs w \<and> fbufs w' = fbufs w \<and>
            (\<exists>path. trace w' = trace w @
               [EvGetStringUTFChars modelPath (next_buf w),
                EvEngineLoadModel nativePtr path (isMultilingual \<noteq> 0),
                EvReleaseStringUTFChars modelPath (next_buf w)]))
       \<and> (\<forall>r w'. transcribeBuffer X nativePtr samples w = Returns (r, w') \<longrightarrow>
            cbufs w' = cbufs w \<and> fbufs w' = fbufs w \<and>
            (\<exists>xs transcript. trace w' = trace w @
               [EvGetArrayLength samples,
                EvGetFloatArrayElements samples (next_buf w),
                EvVectorCopy (next_buf w) xs,
                EvReleaseFloatArrayElements samples (next_buf w) JNI_ABORT,
                EvEngineTranscribeBuffer nativePtr xs,
                EvNewStringUTF transcript]))
       \<and> (\<forall>r w'. transcribeFile X nativePtr waveFile w = Returns (r, w') \<longrightarrow>
            cbufs w' = cbufs w \<and> fbufs w' = fbufs w \<and>
            (\<exists>path transcript. trace w' = trace w @
               [EvGetStringUTFChars waveFile (next_buf w),
                EvEngineTranscribeFile nativePtr path,
                EvReleaseStringUTFChars waveFile (next_buf w),
                EvNewStringUTF transcript]))"
proof (intro conjI allI impI)
  fix r w'
  assume ret: "loadModel X nativePtr modelPath isMultilingual w = Returns (r, w')"
  from loadModel_returns_inv [OF ret] obtain e e' where
    "engines w nativePtr = Some e"
    "engine_loadModel X e (takeWhile (\<lambda>c. c \<noteq> 0) (utf_chars X modelPath)) (isMultilingual \<noteq> 0) = Some (r, e')"
    by blast
  from loadModel_outcome [OF this] ret fresh_pointers_unmap [OF assms]
  show "cbufs w' = cbufs w" and "fbufs w' = fbufs w"
    and "\<exists>path. trace w' = trace w @
               [EvGetStringUTFChars modelPath (next_buf w),
                EvEngineLoadModel nativePtr path (isMultilingual \<noteq> 0),
                EvReleaseStringUTFChars modelPath (next_buf w)]"
    by auto
next
  fix r w'
  assume ret: "transcribeBuffer X nativePtr samples w = Returns (r, w')"
  from transcribeBuffer_returns_inv [OF ret] fresh_pointers_unmap [OF assms]
  show "cbufs w' = cbufs w" and "fbufs w' = fbufs w"
    and "\<exists>xs transcript. trace w' = trace w @
               [EvGetArrayLength samples,
                EvGetFloatArrayElements samples (next_buf w),
                EvVectorCopy (next_buf w) xs,
                EvReleaseFloatArrayElements samples (next_buf w) JNI_ABORT,
                EvEngineTranscribeBuffer nativePtr xs,
                EvNewStringUTF transcript]"
    by auto
next
  fix r w'
  assume ret: "transcribeFile X nativePtr waveFile w = Returns (r, w')"
  from transcribeFile_returns_inv [OF ret] obtain e transcript e' where
    "engines w nativePtr = Some e"
    "engine_transcribeFile X e (takeWhile (\<lambda>c. c \<noteq> 0) (utf_chars X waveFile)) = Some (transcript, e')"
    by blast
  from transcribeFile_outcome [OF this] ret fresh_pointers_unmap [OF assms]
  show "cbufs w' = cbufs w" and "fbufs w' = fbufs w"
    and "\<exists>path transcript. trace w' = trace w @
               [EvGetStringUTFChars waveFile (next_buf w),
                EvEngineTranscribeFile nativePtr path,
                EvReleaseStringUTFChars waveFile (next_buf w),
                EvNewStringUTF transcript]"
    by auto
qed

theorem borrows_released_witness:
  "fresh_pointers (demo_world (Some (Some [0x6D])))
   \<and> map_option (\<lambda>w'. (cbufs w' = Map.empty, fbufs w' = Map.empty))
        (final (loadModel demo_externals 0x1000 [0x6D] 0 (demo_world (Some (Some [0x6D]))))) = Some (True, True)
   \<and> map_option (\<lambda>w'. (cbufs w' = Map.empty, fbufs w' = Map.empty))
        (final (transcribeBuffer demo_externals 0x1000 2 (demo_world (Some (Some [0x6D]))))) = Some (True, True)
   \<and> map_option (\<lambda>w'. (cbufs w' = Map.empty, fbufs w' = Map.empty))
        (final (transcribeFile demo_externals 0x1000 [0x77] (demo_world (Some (Some [0x6D]))))) = Some (True, True)"
proof -
  let ?w = "demo_world (Some (Some [0x6D]))"
  have fresh: "fresh_pointers ?w"
    by (simp add: fresh_pointers_def demo_world_def)
  have live: "engines ?w 0x1000 = Some (Some [0x6D])"
    by (simp add: demo_world_def)
  have "engine_loadModel demo_externals (Some [0x6D])
          (takeWhile (\<lambda>c. c \<noteq> 0) (utf_chars demo_externals [0x6D])) ((0 :: jboolean) \<noteq> 0) = Some (0, Some [0x6D])"
    by (simp add: demo_externals_def)
  from loadModel_outcome [OF live this]
  obtain w1 where r1: "loadModel demo_externals 0x1000 [0x6D] 0 ?w = Returns (0, w1)"
    by blast
  have "jarrays ?w 2 = Some [0x68, 0x69]" and "length [0x68, 0x69 :: jfloat] < 2 ^ 31"
    and "engine_transcribeBuffer demo_externals (Some [0x6D]) [0x68, 0x69] = Some ([0x68, 0x69], Some [0x6D])"
    by (simp_all add: demo_world_def demo_externals_def)
  from transcribeBuffer_outcome [OF live this]
  obtain s2 w2 where r2: "transcribeBuffer demo_externals 0x1000 2 ?w = Returns (s2, w2)"
    by blast
  have "engine_transcribeFile demo_externals (Some [0x6D])
          (takeWhile (\<lambda>c. c \<noteq> 0) (utf_chars demo_externals [0x77])) = Some ([0x6F, 0x6B], Some [0x6D])"
    by (simp add: demo_externals_def)
  from transcribeFile_outcome [OF live this]
  obtain s3 w3 where r3: "transcribeFile demo_externals 0x1000 [0x77] ?w = Returns (s3, w3)"
    by blast
  from borrows_released [OF fresh, of demo_externals "0x1000" "[0x6D]" 0 2 "[0x77]"] r1 r2 r3
  have "cbufs w1 = cbufs ?w \<and> fbufs w1 = fbufs ?w" and "cbufs w2 = cbufs ?w \<and> fbufs w2 = fbufs ?w"
    and "cbufs w3 = cbufs ?w \<and> fbufs w3 = fbufs ?w"
    by simp_all
  with fresh r1 r2 r3 show ?thesis
    by (simp add: demo_world_def)
qed

text \<open>
  C10. When the engine's transcription is \<open>pre\<close>, a NUL, and \<open>post\<close>, with no NUL in
  \<open>pre\<close>, \<open>transcribeBuffer\<close> and \<open>transcribeFile\<close> return the managed string of \<open>pre\<close>
  alone.
\<close>

theorem transcription_cut_at_NUL:
  assumes "engines w nativePtr = Some e"
    and "0 \<notin> set pre"
  shows "(jarrays w samples = Some xs \<and> length xs < 2 ^ 31 \<and>
          engine_transcribeBuffer X e xs = Some (pre @ 0 # post, e') \<longrightarrow>
            returned (transcribeBuffer X nativePtr samples w) = Some (new_string_utf X pre))
       \<and> (engine_transcribeFile X e (takeWhile (\<lambda>c. c \<noteq> 0) (utf_chars X waveFile)) = Some (pre @ 0 # post, e') \<longrightarrow>
            returned (transcribeFile X nativePtr waveFile w) = Some (new_string_utf X pre))"
  using assms
  by (simp add: transcribeBuffer_outcome transcribeFile_outcome takeWhile_before_NUL)

theorem transcription_cut_at_NUL_witness:
  "returned (transcribeBuffer demo_externals 0x1000 1 (demo_world (Some (Some [0x6D])))) = Some [0x61]
   \<and> returned (transcribeFile demo_externals 0x1000 [0x78] (demo_world (Some (Some [0x6D])))) = Some [0x61]"
proof -
  have live: "engines (demo_world (Some (Some [0x6D]))) 0x1000 = Some (Some [0x6D])"
    by (simp add: demo_world_def)
  have pre: "0 \<notin> set [0x61 :: cchar]"
    by simp
  from transcription_cut_at_NUL [OF live pre, of 1 "[0x61, 0, 0x62]" demo_externals "[0x62]"
      "Some [0x6D]" "[0x78]"]
  show ?thesis
    by (simp add: demo_world_def demo_externals_def)
qed

end
